theory Spec2Isabelle
  imports Main
begin

section \<open>Values of the host language\<close>

text \<open>
  The library is TypeScript. A value that travels through it (the payload of a response,
  the result of \<open>JSON.parse\<close>) is a JavaScript value. The number type \<open>'n\<close> is left
  open: no operation of the library computes with numbers. \<open>JData\<close> and \<open>JImage\<close>
  stand for the host's opaque \<open>Data\<close> and \<open>Image\<close> objects.
\<close>

datatype 'n jsval =
    JUndefined
  | JNull
  | JBoolean bool
  | JNumber 'n
  | JString string
  | JArray "'n jsval list"
  | JObject "(string \<times> 'n jsval) list"
  | JData string
  | JImage string

text \<open>The \<open>typeof\<close> operator and \<open>Array.isArray\<close>.\<close>

fun typeof :: "'n jsval \<Rightarrow> string" where
  "typeof JUndefined = ''undefined''"
| "typeof JNull = ''object''"
| "typeof (JBoolean b) = ''boolean''"
| "typeof (JNumber n) = ''number''"
| "typeof (JString s) = ''string''"
| "typeof (JArray xs) = ''object''"
| "typeof (JObject kvs) = ''object''"
| "typeof (JData d) = ''object''"
| "typeof (JImage i) = ''object''"

fun Array_isArray :: "'n jsval \<Rightarrow> bool" where
  "Array_isArray (JArray xs) = True"
| "Array_isArray v = False"

text \<open>\<open>String.prototype.endsWith\<close> and the truthiness of an optional string argument.\<close>

definition endsWith :: "string \<Rightarrow> string \<Rightarrow> bool" where
  "endsWith s suf = (length suf \<le> length s \<and> drop (length s - length suf) s = suf)"

fun truthy :: "string option \<Rightarrow> bool" where
  "truthy None = False"
| "truthy (Some s) = (s \<noteq> [])"

text \<open>Exceptions: thrown values, and rejected promises of \<open>async\<close> functions.\<close>

datatype exn =
    Error string
  | SyntaxError string
  | HostError string

text \<open>
  The two functions of the built-in \<open>JSON\<close> object that the library calls. They belong
  to the JavaScript runtime, not to the library, and are parameters of the model.
\<close>

record 'n JSRuntime =
  JSON_parse :: "string \<Rightarrow> exn + 'n jsval"
  JSON_stringify :: "'n jsval \<Rightarrow> string"


section \<open>DataResponse\<close>

datatype DataStatus = OK | OFFLINE | CACHED | ERROR | NOT_FOUND | API_ERROR

text \<open>
  \<open>msg\<close> is an optional field: \<open>None\<close> is the field left unset (reading it gives
  \<open>undefined\<close>).
\<close>

record 'a DataResponse =
  data :: 'a
  status :: DataStatus
  msg :: "string option"

text \<open>
  The constructor: \<open>this.data = data; this.status = status; if (msg) this.msg = msg\<close>.
  An optional parameter that is left out is \<open>None\<close>.
\<close>

definition DataResponse_new :: "'a \<Rightarrow> DataStatus \<Rightarrow> string option \<Rightarrow> 'a DataResponse" where
  "DataResponse_new d st m =
     \<lparr>data = d, status = st, msg = (if truthy m then m else None)\<rparr>"

definition fromDataResponse :: "'a DataResponse \<Rightarrow> DataStatus \<Rightarrow> 'a DataResponse" where
  "fromDataResponse resp st = DataResponse_new (data resp) st (msg resp)"

definition DataResponse_ok :: "'a \<Rightarrow> string option \<Rightarrow> 'a DataResponse" where
  "DataResponse_ok d m = DataResponse_new d OK m"

definition isSuccess :: "DataStatus \<Rightarrow> bool" where
  "isSuccess st = (st = OK \<or> st = CACHED)"

definition succeeded :: "'a DataResponse \<Rightarrow> bool" where
  "succeeded resp = isSuccess (status resp)"

text \<open>\<open>resp.data == null\<close>: loose equality, true of \<open>null\<close> and \<open>undefined\<close> only.\<close>

definition isEmpty :: "'n jsval DataResponse \<Rightarrow> bool" where
  "isEmpty resp = (data resp = JNull \<or> data resp = JUndefined)"

subsection \<open>Responses as objects in a store\<close>

text \<open>
  To speak about mutation, responses are also modelled as objects: the store is the list
  of the objects allocated so far, a reference is an index into it, and \<open>new\<close> appends.
\<close>

type_synonym 'a store = "'a DataResponse list"

definition deref :: "'a store \<Rightarrow> nat \<Rightarrow> 'a DataResponse option" where
  "deref h r = (if r < length h then Some (h ! r) else None)"

definition new_DataResponse ::
  "'a store \<Rightarrow> 'a \<Rightarrow> DataStatus \<Rightarrow> string option \<Rightarrow> 'a store \<times> nat" where
  "new_DataResponse h d st m = (h @ [DataResponse_new d st m], length h)"

text \<open>\<open>fromDataResponse\<close> on references; \<open>None\<close> for a reference that names no object.\<close>

definition fromDataResponse_ref ::
  "'a store \<Rightarrow> nat \<Rightarrow> DataStatus \<Rightarrow> ('a store \<times> nat) option" where
  "fromDataResponse_ref h r st =
     (case deref h r of
        None \<Rightarrow> None
      | Some resp \<Rightarrow> Some (new_DataResponse h (data resp) st (msg resp)))"


section \<open>Effects: the storage backend, the console, exceptions\<close>

text \<open>
  Every call that leaves the library is recorded, in order: the calls to the backend
  (Scriptable's \<open>FileManager\<close>) with the absolute path they receive, and the console
  output.
\<close>

datatype event =
    FileExists string
  | IsFileStoredIniCloud string
  | IsFileDownloaded string
  | DownloadFileFromiCloud string
  | ReadData string
  | ReadString string
  | ReadImage string
  | WriteString string string
  | ConsoleWarn string
  | ConsoleError exn

text \<open>
  The backend is external to the library: it is a parameter, a record of operations on a
  backend state \<open>'s\<close>. The queries return a boolean; a read returns or throws; the
  download and the write change the state, and may throw.
\<close>

record 's FileManager =
  fm_joinPath :: "string \<Rightarrow> string \<Rightarrow> string"
  fm_fileExists :: "'s \<Rightarrow> string \<Rightarrow> bool"
  fm_isFileStoredIniCloud :: "'s \<Rightarrow> string \<Rightarrow> bool"
  fm_isFileDownloaded :: "'s \<Rightarrow> string \<Rightarrow> bool"
  fm_downloadFileFromiCloud :: "'s \<Rightarrow> string \<Rightarrow> (exn + unit) \<times> 's"
  fm_read :: "'s \<Rightarrow> string \<Rightarrow> exn + string"
  fm_readString :: "'s \<Rightarrow> string \<Rightarrow> exn + string"
  fm_readImage :: "'s \<Rightarrow> string \<Rightarrow> exn + string"
  fm_writeString :: "'s \<Rightarrow> string \<Rightarrow> string \<Rightarrow> (exn + unit) \<times> 's"

text \<open>
  A computation runs on the backend state and the trace of events so far, and either
  returns (\<open>Inr\<close>) or throws (\<open>Inl\<close>).
\<close>

type_synonym ('s, 'a) io = "'s \<times> event list \<Rightarrow> (exn + 'a) \<times> ('s \<times> event list)"

definition io_return :: "'a \<Rightarrow> ('s, 'a) io" where
  "io_return x = (\<lambda>w. (Inr x, w))"

definition io_bind :: "('s, 'a) io \<Rightarrow> ('a \<Rightarrow> ('s, 'b) io) \<Rightarrow> ('s, 'b) io" where
  "io_bind m f = (\<lambda>w. case m w of (Inl e, w') \<Rightarrow> (Inl e, w') | (Inr x, w') \<Rightarrow> f x w')"

text \<open>\<open>try { m } catch (e) { h e }\<close>\<close>

definition io_catch :: "('s, 'a) io \<Rightarrow> (exn \<Rightarrow> ('s, 'a) io) \<Rightarrow> ('s, 'a) io" where
  "io_catch m h = (\<lambda>w. case m w of (Inl e, w') \<Rightarrow> h e w' | (Inr x, w') \<Rightarrow> (Inr x, w'))"

definition emit :: "event \<Rightarrow> ('s, unit) io" where
  "emit ev = (\<lambda>(s, tr). (Inr (), (s, tr @ [ev])))"

definition console_warn :: "string \<Rightarrow> ('s, unit) io" where
  "console_warn m = emit (ConsoleWarn m)"

definition console_error :: "exn \<Rightarrow> ('s, unit) io" where
  "console_error e = emit (ConsoleError e)"

definition call_query ::
  "('s \<Rightarrow> string \<Rightarrow> bool) \<Rightarrow> (string \<Rightarrow> event) \<Rightarrow> string \<Rightarrow> ('s, bool) io" where
  "call_query q ev path = (\<lambda>(s, tr). (Inr (q s path), (s, tr @ [ev path])))"

definition call_read ::
  "('s \<Rightarrow> string \<Rightarrow> exn + string) \<Rightarrow> (string \<Rightarrow> event) \<Rightarrow> string \<Rightarrow> ('s, string) io" where
  "call_read rd ev path = (\<lambda>(s, tr). (rd s path, (s, tr @ [ev path])))"

definition call_update ::
  "('s \<Rightarrow> (exn + unit) \<times> 's) \<Rightarrow> event \<Rightarrow> ('s, unit) io" where
  "call_update upd ev = (\<lambda>(s, tr). case upd s of (r, s') \<Rightarrow> (r, (s', tr @ [ev])))"

definition JSON_parse_io :: "'n JSRuntime \<Rightarrow> string \<Rightarrow> ('s, 'n jsval) io" where
  "JSON_parse_io js text = (\<lambda>w. (JSON_parse js text, w))"

subsection \<open>The response constructors that log\<close>

text \<open>\<open>if (msg) console.warn(msg); return new DataResponse<null>(null, status, msg)\<close>\<close>

definition DataResponse_empty ::
  "DataStatus \<Rightarrow> string option \<Rightarrow> ('s, 'n jsval DataResponse) io" where
  "DataResponse_empty st m =
     io_bind (case m of
                None \<Rightarrow> io_return ()
              | Some s \<Rightarrow> if truthy m then console_warn s else io_return ())
       (\<lambda>_. io_return (DataResponse_new JNull st m))"

definition DataResponse_notFound :: "string option \<Rightarrow> ('s, 'n jsval DataResponse) io" where
  "DataResponse_notFound m = DataResponse_empty NOT_FOUND m"

definition DataResponse_error :: "string option \<Rightarrow> ('s, 'n jsval DataResponse) io" where
  "DataResponse_error m = DataResponse_empty ERROR m"

definition DataResponse_apiError :: "string option \<Rightarrow> ('s, 'n jsval DataResponse) io" where
  "DataResponse_apiError m = DataResponse_empty API_ERROR m"


section \<open>CustomFileManager\<close>

text \<open>
  A manager is its fields after construction: the backend it chose, the directories and
  the file stub. The constructors themselves (the choice between the iCloud and the local
  backend, the creation of the base directory) are not modelled.
\<close>

datatype FileType = TEXT | JSON | JSON_DICT | OTHER | LOG

record 's CustomFileManager =
  fm :: "'s FileManager"
  basepath :: string
  scriptableDir :: string
  filestub :: string

definition extensionByType :: "FileType \<Rightarrow> bool \<Rightarrow> string" where
  "extensionByType type omitDot =
     (let dot = (if omitDot then '''' else ''.'')
      in case type of
           TEXT \<Rightarrow> dot @ ''txt''
         | JSON_DICT \<Rightarrow> dot @ ''json''
         | JSON \<Rightarrow> dot @ ''json''
         | LOG \<Rightarrow> dot @ ''log''
         | OTHER \<Rightarrow> '''')"

definition typeByExtension :: "string \<Rightarrow> exn + FileType" where
  "typeByExtension extension =
     (if extension = ''txt'' then Inr TEXT
      else if extension = ''json'' then Inr JSON
      else if extension = ''log'' then Inr LOG
      else Inl (Error (''Unknown extension '' @ extension @ ''.'')))"

definition getAbsolutePath :: "'s CustomFileManager \<Rightarrow> string \<Rightarrow> bool \<Rightarrow> string" where
  "getAbsolutePath this relFilePath configDir =
     fm_joinPath (fm this) (if configDir then basepath this else scriptableDir this) relFilePath"

definition CustomFileManager_read ::
  "'n JSRuntime \<Rightarrow> 's CustomFileManager \<Rightarrow> string \<Rightarrow> FileType \<Rightarrow> bool
     \<Rightarrow> ('s, 'n jsval DataResponse) io" where
  "CustomFileManager_read js this file type configDir =
     (let ext = extensionByType type False;
          path = getAbsolutePath this (if endsWith file ext then file else file @ ext) configDir
      in
      io_bind (call_query (fm_isFileStoredIniCloud (fm this)) IsFileStoredIniCloud path) (\<lambda>stored.
      io_bind (if stored
               then io_bind (call_query (fm_isFileDownloaded (fm this)) IsFileDownloaded path)
                      (\<lambda>downloaded. io_return (\<not> downloaded))
               else io_return False) (\<lambda>pending.
      io_bind (if pending
               then call_update (\<lambda>s. fm_downloadFileFromiCloud (fm this) s path)
                      (DownloadFileFromiCloud path)
               else io_return ()) (\<lambda>_.
      io_bind (call_query (fm_fileExists (fm this)) FileExists path) (\<lambda>exists.
      if exists then
        io_catch
          (io_bind (call_read (fm_readString (fm this)) ReadString path) (\<lambda>resStr.
             if type = JSON then
               io_bind (JSON_parse_io js resStr) (\<lambda>v. io_return (DataResponse_new v OK None))
             else if type = JSON_DICT then
               io_bind (JSON_parse_io js resStr) (\<lambda>dict.
                 if typeof dict \<noteq> ''object'' \<or> Array_isArray dict \<or> dict = JNull then
                   io_bind (console_warn ''read: parsed data not a dictionary.'')
                     (\<lambda>_. DataResponse_error None)
                 else io_return (DataResponse_new dict OK None))
             else io_return (DataResponse_new (JString resStr) OK None)))
          (\<lambda>e. io_bind (console_error e) (\<lambda>_. DataResponse_error None))
      else
        io_bind (console_warn (''File '' @ path @ '' does not exist.''))
          (\<lambda>_. DataResponse_notFound None))))))"

text \<open>
  The payload of \<open>write\<close> has type \<open>Record<string, unknown> | string\<close>. \<open>file\<close> defaults
  to the manager's \<open>filestub\<close> (\<open>None\<close> is the argument left out).
\<close>

datatype 'n write_data = RecordData "(string \<times> 'n jsval) list" | StringData string

fun write_data_value :: "'n write_data \<Rightarrow> 'n jsval" where
  "write_data_value (RecordData kvs) = JObject kvs"
| "write_data_value (StringData s) = JString s"

text \<open>
  \<open>dataStr = data\<close> in the branches where \<open>typeof data\<close> is not \<open>"object"\<close>: there the
  payload is a string. The equation for a record is never reached.
\<close>

fun narrowed_string :: "'n write_data \<Rightarrow> string" where
  "narrowed_string (StringData s) = s"
| "narrowed_string (RecordData kvs) = []"

definition CustomFileManager_write ::
  "'n JSRuntime \<Rightarrow> 's CustomFileManager \<Rightarrow> 'n write_data \<Rightarrow> string option \<Rightarrow> FileType \<Rightarrow> bool
     \<Rightarrow> ('s, unit) io" where
  "CustomFileManager_write js this dat file_arg type configDir =
     (let file = (case file_arg of None \<Rightarrow> filestub this | Some f \<Rightarrow> f);
          dataStr =
            (if type = JSON \<or> type = JSON_DICT \<or> typeof (write_data_value dat) = ''object''
             then JSON_stringify js (write_data_value dat)
             else if type = TEXT then narrowed_string dat
             else narrowed_string dat);
          ext = extensionByType type False;
          path = getAbsolutePath this (if endsWith file ext then file else file @ ext) configDir
      in call_update (\<lambda>s. fm_writeString (fm this) s path dataStr) (WriteString path dataStr))"


section \<open>NewFileManager\<close>

record 's NewFileManager =
  nfm_fm :: "'s FileManager"
  nfm_basepath :: string
  nfm_filestub :: "string option"

definition mapPath :: "'s NewFileManager \<Rightarrow> string \<Rightarrow> string" where
  "mapPath this filePath = fm_joinPath (nfm_fm this) (nfm_basepath this) filePath"

definition fileExists :: "'s NewFileManager \<Rightarrow> string \<Rightarrow> ('s, bool) io" where
  "fileExists this filePath =
     call_query (fm_fileExists (nfm_fm this)) FileExists (mapPath this filePath)"

definition isFileStoredIniCloud :: "'s NewFileManager \<Rightarrow> string \<Rightarrow> ('s, bool) io" where
  "isFileStoredIniCloud this filePath =
     call_query (fm_isFileStoredIniCloud (nfm_fm this)) IsFileStoredIniCloud (mapPath this filePath)"

definition isFileDownloaded :: "'s NewFileManager \<Rightarrow> string \<Rightarrow> ('s, bool) io" where
  "isFileDownloaded this filePath =
     call_query (fm_isFileDownloaded (nfm_fm this)) IsFileDownloaded (mapPath this filePath)"

definition downloadFileFromiCloud :: "'s NewFileManager \<Rightarrow> string \<Rightarrow> ('s, unit) io" where
  "downloadFileFromiCloud this filePath =
     call_update (\<lambda>s. fm_downloadFileFromiCloud (nfm_fm this) s (mapPath this filePath))
       (DownloadFileFromiCloud (mapPath this filePath))"

definition readSmartWrapper ::
  "'s NewFileManager \<Rightarrow> string \<Rightarrow> (string \<Rightarrow> ('s, 'n jsval) io)
     \<Rightarrow> ('s, 'n jsval DataResponse) io" where
  "readSmartWrapper this filePath fn =
     io_bind (fileExists this filePath) (\<lambda>exists.
     if \<not> exists then
       io_bind (console_warn (''readSmartWrapper: File '' @ [CHR 0x27] @ filePath @ [CHR 0x27]
                              @ '' does not exist.''))
         (\<lambda>_. DataResponse_notFound None)
     else
       io_bind (isFileStoredIniCloud this filePath) (\<lambda>stored.
       io_bind (if stored
                then io_bind (isFileDownloaded this filePath)
                       (\<lambda>downloaded. io_return (\<not> downloaded))
                else io_return False) (\<lambda>pending.
       io_bind (if pending then downloadFileFromiCloud this filePath else io_return ()) (\<lambda>_.
       io_bind (fn filePath) (\<lambda>v. io_return (DataResponse_ok v None))))))"

definition NewFileManager_read :: "'s NewFileManager \<Rightarrow> string \<Rightarrow> ('s, 'n jsval) io" where
  "NewFileManager_read this filePath =
     io_bind (call_read (fm_read (nfm_fm this)) ReadData (mapPath this filePath))
       (\<lambda>d. io_return (JData d))"

definition readS :: "'s NewFileManager \<Rightarrow> string \<Rightarrow> ('s, 'n jsval DataResponse) io" where
  "readS this filePath =
     (let fn = (\<lambda>path. NewFileManager_read this path)
      in readSmartWrapper this filePath fn)"

definition readString :: "'s NewFileManager \<Rightarrow> string \<Rightarrow> ('s, string) io" where
  "readString this filePath =
     call_read (fm_readString (nfm_fm this)) ReadString (mapPath this filePath)"

definition readStringS :: "'s NewFileManager \<Rightarrow> string \<Rightarrow> ('s, 'n jsval DataResponse) io" where
  "readStringS this filePath =
     (let fn = (\<lambda>path. io_bind (readString this path) (\<lambda>s. io_return (JString s)))
      in readSmartWrapper this filePath fn)"

definition readJSON ::
  "'n JSRuntime \<Rightarrow> 's NewFileManager \<Rightarrow> string \<Rightarrow> bool \<Rightarrow> ('s, 'n jsval) io" where
  "readJSON js this filePath autoExtension =
     (let path = (if autoExtension \<and> \<not> endsWith filePath ''.json''
                  then filePath @ ''.json'' else filePath)
      in io_bind (readString this path) (\<lambda>dat. JSON_parse_io js dat))"

definition readJSONS ::
  "'n JSRuntime \<Rightarrow> 's NewFileManager \<Rightarrow> string \<Rightarrow> bool \<Rightarrow> ('s, 'n jsval DataResponse) io" where
  "readJSONS js this filePath autoExtension =
     (let fn = (\<lambda>path. readJSON js this path False);
          path = (if autoExtension \<and> \<not> endsWith filePath ''.json''
                  then filePath @ ''.json'' else filePath)
      in readSmartWrapper this path fn)"

definition readJSONDict ::
  "'n JSRuntime \<Rightarrow> 's NewFileManager \<Rightarrow> string \<Rightarrow> bool \<Rightarrow> ('s, 'n jsval) io" where
  "readJSONDict js this filePath autoExtension =
     io_bind (readJSON js this filePath autoExtension) (\<lambda>dat.
     if typeof dat \<noteq> ''object'' \<or> Array_isArray dat \<or> dat = JNull then
       io_bind (console_warn (''readJSONDict: data not a dictionary.('' @ typeof dat @ '')''))
         (\<lambda>_. io_return JNull)
     else io_return dat)"

text \<open>
  In \<open>readJSONDictS\<close> the value \<open>res\<close> is the promise that \<open>readSmartWrapper\<close> returns, not
  its result: a promise is an object, so \<open>res != null\<close> holds and the conditional returns
  \<open>res\<close>; the branch \<open>DataResponse.empty()\<close> is never taken.
\<close>

definition readJSONDictS ::
  "'n JSRuntime \<Rightarrow> 's NewFileManager \<Rightarrow> string \<Rightarrow> bool \<Rightarrow> ('s, 'n jsval DataResponse) io" where
  "readJSONDictS js this filePath autoExtension =
     (let fn = (\<lambda>path. readJSONDict js this path False);
          path = (if autoExtension \<and> \<not> endsWith filePath ''.json''
                  then filePath @ ''.json'' else filePath);
          res = readSmartWrapper this path fn;
          res_is_promise = True
      in if res_is_promise then res else DataResponse_empty OK None)"

definition readImage :: "'s NewFileManager \<Rightarrow> string \<Rightarrow> ('s, 'n jsval) io" where
  "readImage this filePath =
     io_bind (call_read (fm_readImage (nfm_fm this)) ReadImage (mapPath this filePath))
       (\<lambda>i. io_return (JImage i))"

definition readImageS :: "'s NewFileManager \<Rightarrow> string \<Rightarrow> ('s, 'n jsval DataResponse) io" where
  "readImageS this filePath =
     (let fn = (\<lambda>path. readImage this path)
      in readSmartWrapper this filePath fn)"


section \<open>A concrete backend and runtime\<close>

text \<open>
  To run the operations on concrete inputs: an in-memory backend, whose state is an
  association list from absolute paths to files (the first entry for a path is the
  current one), and a runtime whose \<open>JSON\<close> functions are given on the texts and values
  of the examples only (numbers are integers; any other text is rejected, which is what
  \<open>JSON.parse\<close> does with the malformed text ending in an open brace used below).
\<close>

datatype mem_file = MemFile (content: string) (stored_in_icloud: bool) (downloaded: bool)

type_synonym mem_fs = "(string \<times> mem_file) list"

definition mem_get :: "mem_fs \<Rightarrow> string \<Rightarrow> exn + string" where
  "mem_get s p =
     (case map_of s p of
        None \<Rightarrow> Inl (HostError ''no such file'')
      | Some f \<Rightarrow>
          if stored_in_icloud f \<and> \<not> downloaded f then Inl (HostError ''file not downloaded'')
          else Inr (content f))"

definition mem_FileManager :: "mem_fs FileManager" where
  "mem_FileManager =
     \<lparr>fm_joinPath = (\<lambda>a b. a @ ''/'' @ b),
      fm_fileExists = (\<lambda>s p. map_of s p \<noteq> None),
      fm_isFileStoredIniCloud =
        (\<lambda>s p. case map_of s p of None \<Rightarrow> False | Some f \<Rightarrow> stored_in_icloud f),
      fm_isFileDownloaded =
        (\<lambda>s p. case map_of s p of None \<Rightarrow> False | Some f \<Rightarrow> downloaded f),
      fm_downloadFileFromiCloud =
        (\<lambda>s p. case map_of s p of
                 None \<Rightarrow> (Inr (), s)
               | Some f \<Rightarrow> (Inr (), (p, MemFile (content f) (stored_in_icloud f) True) # s)),
      fm_read = mem_get,
      fm_readString = mem_get,
      fm_readImage = mem_get,
      fm_writeString =
        (\<lambda>s p c. (Inr (),
                  (p, MemFile c (case map_of s p of None \<Rightarrow> False
                                 | Some f \<Rightarrow> stored_in_icloud f) True) # s))\<rparr>"

definition sample_JSON :: "int JSRuntime" where
  "sample_JSON =
     \<lparr>JSON_parse =
        (\<lambda>t. if t = ''[1,2,3]'' then Inr (JArray [JNumber 1, JNumber 2, JNumber 3])
             else if t = ''{'' @ [CHR 0x22] @ ''a'' @ [CHR 0x22] @ '':1}''
               then Inr (JObject [(''a'', JNumber 1)])
             else if t = ''null'' then Inr JNull
             else Inl (SyntaxError ''JSON Parse error'')),
      JSON_stringify =
        (\<lambda>v. if v = JObject [(''a'', JNumber 1)]
               then ''{'' @ [CHR 0x22] @ ''a'' @ [CHR 0x22] @ '':1}''
             else ''null'')\<rparr>"

definition sample_cfm :: "mem_fs CustomFileManager" where
  "sample_cfm =
     \<lparr>fm = mem_FileManager, basepath = ''/docs/cfg'', scriptableDir = ''/docs'',
      filestub = ''data''\<rparr>"

definition sample_nfm :: "mem_fs NewFileManager" where
  "sample_nfm =
     \<lparr>nfm_fm = mem_FileManager, nfm_basepath = ''/docs/cfg'', nfm_filestub = None\<rparr>"


text \<open>
  Three backend states: a file of JSON array text that is stored in iCloud and not yet
  downloaded, the same file once downloaded, and a local file of malformed JSON.
\<close>

definition cloud_array_file :: mem_fs where
  "cloud_array_file = [(''/docs/cfg/rec.json'', MemFile ''[1,2,3]'' True False)]"

definition cloud_array_file_downloaded :: mem_fs where
  "cloud_array_file_downloaded =
     (''/docs/cfg/rec.json'', MemFile ''[1,2,3]'' True True) # cloud_array_file"

definition malformed_json_file :: mem_fs where
  "malformed_json_file = [(''/docs/cfg/rec.json'', MemFile ''{'' False True)]"


section \<open>Notions used in the statements\<close>

text \<open>
  The file name that \<open>read\<close> and \<open>write\<close> of \<open>CustomFileManager\<close> hand to
  \<open>getAbsolutePath\<close>: the extension of the type is appended unless the name ends with it.
\<close>

definition resolvedName :: "string \<Rightarrow> FileType \<Rightarrow> string" where
  "resolvedName file type =
     (if endsWith file (extensionByType type False) then file
      else file @ extensionByType type False)"

text \<open>The path a backend call was made with; console output has none.\<close>

fun event_path :: "event \<Rightarrow> string option" where
  "event_path (FileExists p) = Some p"
| "event_path (IsFileStoredIniCloud p) = Some p"
| "event_path (IsFileDownloaded p) = Some p"
| "event_path (DownloadFileFromiCloud p) = Some p"
| "event_path (ReadData p) = Some p"
| "event_path (ReadString p) = Some p"
| "event_path (ReadImage p) = Some p"
| "event_path (WriteString p c) = Some p"
| "event_path (ConsoleWarn m) = None"
| "event_path (ConsoleError e) = None"


text \<open>
  The path that the safe JSON readers of \<open>NewFileManager\<close> hand to \<open>readSmartWrapper\<close>.
\<close>

definition jsonPath :: "string \<Rightarrow> bool \<Rightarrow> string" where
  "jsonPath filePath autoExtension =
     (if autoExtension \<and> \<not> endsWith filePath ''.json'' then filePath @ ''.json''
      else filePath)"

text \<open>
  A file is pending when it is stored in iCloud and not downloaded. \<open>materialize\<close> is the
  conditional download both managers perform, as one step on the backend state, and
  \<open>cloud_events\<close> is the backend calls that step makes (\<open>&&\<close> does not ask
  \<open>isFileDownloaded\<close> when the file is not stored in iCloud).
\<close>

definition pending :: "'s FileManager \<Rightarrow> 's \<Rightarrow> string \<Rightarrow> bool" where
  "pending f s p = (fm_isFileStoredIniCloud f s p \<and> \<not> fm_isFileDownloaded f s p)"

definition materialize :: "'s FileManager \<Rightarrow> 's \<Rightarrow> string \<Rightarrow> (exn + unit) \<times> 's" where
  "materialize f s p = (if pending f s p then fm_downloadFileFromiCloud f s p else (Inr (), s))"

definition cloud_events :: "'s FileManager \<Rightarrow> 's \<Rightarrow> string \<Rightarrow> event list" where
  "cloud_events f s p =
     IsFileStoredIniCloud p #
     (if fm_isFileStoredIniCloud f s p
      then IsFileDownloaded p #
           (if fm_isFileDownloaded f s p then [] else [DownloadFileFromiCloud p])
      else [])"

text \<open>
  The values \<open>JSON.parse\<close> can return that are not objects: \<open>null\<close>, scalars and
  arrays. \<open>is_dictionary\<close> is the negation of the test both managers apply.
\<close>

fun json_non_object :: "'n jsval \<Rightarrow> bool" where
  "json_non_object JNull = True"
| "json_non_object (JBoolean b) = True"
| "json_non_object (JNumber n) = True"
| "json_non_object (JString s) = True"
| "json_non_object (JArray xs) = True"
| "json_non_object v = False"

definition is_dictionary :: "'n jsval \<Rightarrow> bool" where
  "is_dictionary v = (\<not> (typeof v \<noteq> ''object'' \<or> Array_isArray v \<or> v = JNull))"

definition not_found_warning :: "string \<Rightarrow> string" where
  "not_found_warning filePath =
     ''readSmartWrapper: File '' @ [CHR 0x27] @ filePath @ [CHR 0x27] @ '' does not exist.''"

text \<open>
  What \<open>CustomFileManager.read\<close> does once the download step is over, written out by
  cases: the result, the backend state and the trace (\<open>CustomFileManager_read_run\<close> below
  proves that the code does this).
\<close>

definition read_rest ::
  "'n JSRuntime \<Rightarrow> 's FileManager \<Rightarrow> FileType \<Rightarrow> string \<Rightarrow> 's \<Rightarrow> event list
     \<Rightarrow> (exn + 'n jsval DataResponse) \<times> ('s \<times> event list)" where
  "read_rest js F k P s1 tr1 =
     (let ERR = \<lparr>data = JNull, status = ERROR, msg = None\<rparr> in
      if \<not> fm_fileExists F s1 P then
        (Inr \<lparr>data = JNull, status = NOT_FOUND, msg = None\<rparr>,
         (s1, tr1 @ [FileExists P, ConsoleWarn (''File '' @ P @ '' does not exist.'')]))
      else
        (case fm_readString F s1 P of
           Inl e \<Rightarrow> (Inr ERR, (s1, tr1 @ [FileExists P, ReadString P, ConsoleError e]))
         | Inr txt \<Rightarrow>
             if k = JSON \<or> k = JSON_DICT then
               (case JSON_parse js txt of
                  Inl e \<Rightarrow> (Inr ERR, (s1, tr1 @ [FileExists P, ReadString P, ConsoleError e]))
                | Inr v \<Rightarrow>
                    if k = JSON_DICT \<and> \<not> is_dictionary v then
                      (Inr ERR, (s1, tr1 @ [FileExists P, ReadString P,
                          ConsoleWarn ''read: parsed data not a dictionary.'']))
                    else (Inr \<lparr>data = v, status = OK, msg = None\<rparr>,
                          (s1, tr1 @ [FileExists P, ReadString P])))
             else (Inr \<lparr>data = JString txt, status = OK, msg = None\<rparr>,
                   (s1, tr1 @ [FileExists P, ReadString P]))))"

text \<open>
  Order in a trace: \<open>precedes a b tr\<close> says that no \<open>b\<close> occurs in \<open>tr\<close> before the first
  \<open>a\<close> (every \<open>b\<close> has an \<open>a\<close> before it).
\<close>

fun precedes :: "event \<Rightarrow> event \<Rightarrow> event list \<Rightarrow> bool" where
  "precedes a b [] = True"
| "precedes a b (x # xs) = (if x = a then True else if x = b then False else precedes a b xs)"

text \<open>
  The backend calls of a trace, in order: the events that carry a path, without the
  console output.
\<close>

definition backend_calls :: "event list \<Rightarrow> event list" where
  "backend_calls tr = filter (\<lambda>e. event_path e \<noteq> None) tr"

text \<open>
  The two sequences of backend calls of a safe read on the path \<open>P\<close>, from the backend
  state \<open>s\<close>, with \<open>rd\<close> the raw read.

  \<open>exists_download_read_calls\<close>: the existence check; if the file exists, the calls of the
  conditional download; if that returns, the raw read.

  \<open>download_exists_read_calls\<close>: the calls of the conditional download; if that returns,
  the existence check, made on the state the download leaves; if the file exists there,
  the raw read.
\<close>

definition exists_download_read_calls ::
  "'s FileManager \<Rightarrow> 's \<Rightarrow> string \<Rightarrow> event \<Rightarrow> event list" where
  "exists_download_read_calls F s P rd =
     FileExists P #
     (if fm_fileExists F s P
      then cloud_events F s P @
           (case materialize F s P of (Inl e, s1) \<Rightarrow> [] | (Inr u, s1) \<Rightarrow> [rd])
      else [])"

definition download_exists_read_calls :: "'s FileManager \<Rightarrow> 's \<Rightarrow> string \<Rightarrow> event list" where
  "download_exists_read_calls F s P =
     cloud_events F s P @
     (case materialize F s P of
        (Inl e, s1) \<Rightarrow> []
      | (Inr u, s1) \<Rightarrow> FileExists P # (if fm_fileExists F s1 P then [ReadString P] else []))"

text \<open>
  The two orders, as properties of a sequence of backend calls on the path \<open>P\<close>. \<open>ex\<close>
  says whether the file exists and \<open>pend\<close> whether it is pending when the read starts,
  \<open>dl_ok\<close> whether the conditional download returns, and \<open>ex1\<close> whether the file exists
  in the state the download leaves.

  \<open>exists_download_read\<close>: the existence check is the first call and is made once; no
  download and no raw read happens before it; a download happens exactly if the file
  exists and is pending; the raw read happens exactly if the file exists and the
  conditional download returns; if the file is pending, no raw read happens before the
  download.

  \<open>download_exists_read\<close>: a download happens exactly if the file is pending; the
  existence check happens exactly if the conditional download returns; the raw read
  happens exactly if moreover the file then exists; if the file is pending, no existence
  check and no raw read happens before the download; no raw read happens before the
  existence check.
\<close>

definition exists_download_read ::
  "string \<Rightarrow> event \<Rightarrow> bool \<Rightarrow> bool \<Rightarrow> bool \<Rightarrow> event list \<Rightarrow> bool" where
  "exists_download_read P rd ex pend dl_ok calls =
     (calls \<noteq> [] \<and> hd calls = FileExists P
      \<and> count_list calls (FileExists P) = 1
      \<and> precedes (FileExists P) (DownloadFileFromiCloud P) calls
      \<and> precedes (FileExists P) rd calls
      \<and> (DownloadFileFromiCloud P \<in> set calls) = (ex \<and> pend)
      \<and> (rd \<in> set calls) = (ex \<and> dl_ok)
      \<and> (pend \<longrightarrow> precedes (DownloadFileFromiCloud P) rd calls))"

definition download_exists_read :: "string \<Rightarrow> bool \<Rightarrow> bool \<Rightarrow> bool \<Rightarrow> event list \<Rightarrow> bool" where
  "download_exists_read P pend dl_ok ex1 calls =
     ((DownloadFileFromiCloud P \<in> set calls) = pend
      \<and> (FileExists P \<in> set calls) = dl_ok
      \<and> (ReadString P \<in> set calls) = (dl_ok \<and> ex1)
      \<and> (pend \<longrightarrow> precedes (DownloadFileFromiCloud P) (FileExists P) calls)
      \<and> precedes (FileExists P) (ReadString P) calls
      \<and> (pend \<longrightarrow> precedes (DownloadFileFromiCloud P) (ReadString P) calls))"


section \<open>Properties of DataResponse\<close>

lemmas io_defs = io_return_def io_bind_def io_catch_def emit_def console_warn_def
  console_error_def call_query_def call_read_def call_update_def JSON_parse_io_def
  DataResponse_empty_def DataResponse_notFound_def DataResponse_error_def
  DataResponse_apiError_def

text \<open>
  C9, as the code has it. \<open>fromDataResponse\<close> applied to \<open>new DataResponse(p, s0, m)\<close> and a
  status \<open>s1\<close> gives a response with payload \<open>p\<close>, status \<open>s1\<close> and the message of the
  original response. That message is \<open>m\<close> when \<open>m\<close> is left out or is a non-empty string;
  when \<open>m\<close> is the empty string the constructor leaves the field unset, in the original
  and in the copy. On the store: the copy is a new object and the original object is
  unchanged.
\<close>

theorem fromDataResponse_copies:
  "fromDataResponse (DataResponse_new p s0 m) s1 =
     \<lparr>data = p, status = s1, msg = (if m = Some [] then None else m)\<rparr>
   \<and> (case new_DataResponse h p s0 m of (h1, r0) \<Rightarrow>
        (case fromDataResponse_ref h1 r0 s1 of
           None \<Rightarrow> False
         | Some (h2, r1) \<Rightarrow>
             deref h2 r1 =
               Some \<lparr>data = p, status = s1, msg = (if m = Some [] then None else m)\<rparr>
           \<and> map_option msg (deref h2 r1) = map_option msg (deref h1 r0)
           \<and> deref h2 r0 = deref h1 r0
           \<and> deref h2 r0 = Some (DataResponse_new p s0 m)
           \<and> r1 \<noteq> r0))"
  by (cases m) (auto simp: fromDataResponse_def DataResponse_new_def new_DataResponse_def
      fromDataResponse_ref_def deref_def nth_append)

text \<open>
  C9 as stated fails for the empty message: the copy of \<open>new DataResponse(1, OK, "")\<close> has
  no message, not the message \<open>""\<close>.
\<close>

theorem fromDataResponse_empty_message_lost:
  "msg (fromDataResponse (DataResponse_new (JNumber (1::int)) OK (Some [])) CACHED) \<noteq> Some []"
  by (simp add: fromDataResponse_def DataResponse_new_def)

text \<open>
  C10. With the empty string as message, the constructor and \<open>ok\<close> leave the message
  unset, and \<open>empty\<close>, \<open>notFound\<close>, \<open>error\<close> and \<open>apiError\<close> leave it unset and write
  nothing to the console (backend state and trace are unchanged). A non-empty message is
  stored, and \<open>empty\<close>, \<open>notFound\<close>, \<open>error\<close> and \<open>apiError\<close> log it as one warning.
\<close>

theorem empty_message_is_absent:
  "msg (DataResponse_new p st (Some [])) = None
   \<and> msg (DataResponse_ok p (Some [])) = None
   \<and> DataResponse_empty st (Some []) (s, tr)
       = (Inr \<lparr>data = JNull, status = st, msg = None\<rparr>, (s, tr))
   \<and> DataResponse_notFound (Some []) (s, tr)
       = (Inr \<lparr>data = JNull, status = NOT_FOUND, msg = None\<rparr>, (s, tr))
   \<and> DataResponse_error (Some []) (s, tr)
       = (Inr \<lparr>data = JNull, status = ERROR, msg = None\<rparr>, (s, tr))
   \<and> DataResponse_apiError (Some []) (s, tr)
       = (Inr \<lparr>data = JNull, status = API_ERROR, msg = None\<rparr>, (s, tr))
   \<and> msg (DataResponse_new p st (Some (c # cs))) = Some (c # cs)
   \<and> msg (DataResponse_ok p (Some (c # cs))) = Some (c # cs)
   \<and> DataResponse_empty st (Some (c # cs)) (s, tr)
       = (Inr \<lparr>data = JNull, status = st, msg = Some (c # cs)\<rparr>,
          (s, tr @ [ConsoleWarn (c # cs)]))
   \<and> DataResponse_notFound (Some (c # cs)) (s, tr)
       = (Inr \<lparr>data = JNull, status = NOT_FOUND, msg = Some (c # cs)\<rparr>,
          (s, tr @ [ConsoleWarn (c # cs)]))
   \<and> DataResponse_error (Some (c # cs)) (s, tr)
       = (Inr \<lparr>data = JNull, status = ERROR, msg = Some (c # cs)\<rparr>,
          (s, tr @ [ConsoleWarn (c # cs)]))
   \<and> DataResponse_apiError (Some (c # cs)) (s, tr)
       = (Inr \<lparr>data = JNull, status = API_ERROR, msg = Some (c # cs)\<rparr>,
          (s, tr @ [ConsoleWarn (c # cs)]))"
  by (simp add: io_defs DataResponse_new_def DataResponse_ok_def)


section \<open>Properties of CustomFileManager\<close>

text \<open>
  C8, as the code has it. \<open>typeByExtension\<close> undoes \<open>extensionByType\<close> (dot omitted) on
  \<open>TEXT\<close>, \<open>JSON\<close> and \<open>LOG\<close>; \<open>JSON_DICT\<close> shares the extension of \<open>JSON\<close> and comes back as
  \<open>JSON\<close>; the extension of \<open>OTHER\<close> is empty and is rejected. \<open>typeByExtension\<close> throws
  its "Unknown extension" error exactly on the strings other than \<open>txt\<close>, \<open>json\<close>, \<open>log\<close>,
  and where it returns a type, that type has the given extension.
\<close>

theorem typeByExtension_extensionByType:
  "typeByExtension (extensionByType TEXT True) = Inr TEXT
   \<and> typeByExtension (extensionByType JSON True) = Inr JSON
   \<and> typeByExtension (extensionByType LOG True) = Inr LOG
   \<and> typeByExtension (extensionByType JSON_DICT True) = Inr JSON
   \<and> typeByExtension (extensionByType OTHER True) = Inl (Error ''Unknown extension .'')
   \<and> (typeByExtension e = Inl (Error (''Unknown extension '' @ e @ ''.'')))
       = (e \<noteq> ''txt'' \<and> e \<noteq> ''json'' \<and> e \<noteq> ''log'')
   \<and> (case typeByExtension e of Inl x \<Rightarrow> True | Inr k \<Rightarrow> extensionByType k True = e)"
  by (simp add: typeByExtension_def extensionByType_def)

text \<open>C8 as stated fails at \<open>JSON_DICT\<close>: the round trip does not return it.\<close>

theorem typeByExtension_not_inverse_at_JSON_DICT:
  "typeByExtension (extensionByType JSON_DICT True) \<noteq> Inr JSON_DICT"
  by (simp add: typeByExtension_def extensionByType_def)



section \<open>Running the computations\<close>

lemma io_return_apply: "io_return x w = (Inr x, w)"
  by (simp add: io_return_def)

lemma io_bind_return: "io_bind (io_return x) f = f x"
  by (simp add: io_bind_def io_return_def)

lemma io_bind_if: "io_bind (if b then m else n) f = (if b then io_bind m f else io_bind n f)"
  by simp

lemma io_bind_assoc: "io_bind (io_bind m f) g = io_bind m (\<lambda>x. io_bind (f x) g)"
  by (auto simp: io_bind_def fun_eq_iff split: prod.splits sum.splits)

lemma io_bind_query: "io_bind (call_query q ev p) f (s, tr) = f (q s p) (s, tr @ [ev p])"
  by (simp add: io_bind_def call_query_def)

lemma io_bind_read:
  "io_bind (call_read rd ev p) f (s, tr) =
     (case rd s p of Inl e \<Rightarrow> (Inl e, (s, tr @ [ev p])) | Inr x \<Rightarrow> f x (s, tr @ [ev p]))"
  by (simp add: io_bind_def call_read_def split: sum.splits)

lemma io_bind_update:
  "io_bind (call_update upd ev) f (s, tr) =
     (case upd s of
        (Inl e, s1) \<Rightarrow> (Inl e, (s1, tr @ [ev]))
      | (Inr u, s1) \<Rightarrow> f u (s1, tr @ [ev]))"
  by (simp add: io_bind_def call_update_def split: prod.splits sum.splits)

lemma io_bind_warn: "io_bind (console_warn m) f (s, tr) = f () (s, tr @ [ConsoleWarn m])"
  by (simp add: io_bind_def console_warn_def emit_def)

lemma io_bind_error: "io_bind (console_error e) f (s, tr) = f () (s, tr @ [ConsoleError e])"
  by (simp add: io_bind_def console_error_def emit_def)

lemma io_bind_parse:
  "io_bind (JSON_parse_io js t) f w =
     (case JSON_parse js t of Inl e \<Rightarrow> (Inl e, w) | Inr v \<Rightarrow> f v w)"
  by (simp add: io_bind_def JSON_parse_io_def split: sum.splits)

lemma DataResponse_empty_None:
  "DataResponse_empty st None w = (Inr \<lparr>data = JNull, status = st, msg = None\<rparr>, w)"
  by (simp add: DataResponse_empty_def io_bind_def io_return_def DataResponse_new_def)

lemma io_catch_apply:
  "io_catch m h w = (case m w of (Inl e, w1) \<Rightarrow> h e w1 | (Inr x, w1) \<Rightarrow> (Inr x, w1))"
  by (simp add: io_catch_def)

lemmas io_run = io_return_apply io_bind_return io_bind_if io_bind_assoc io_bind_query
  io_bind_read io_bind_update io_bind_warn io_bind_error io_bind_parse
  DataResponse_empty_None DataResponse_notFound_def DataResponse_error_def

subsection \<open>CustomFileManager\<close>

text \<open>
  \<open>read\<close>: the conditional download on the resolved path; if it throws, so does \<open>read\<close>;
  otherwise the existence check, the raw read and the parsing run on the state it leaves.
\<close>

lemma CustomFileManager_read_run:
  "CustomFileManager_read js this f k c (s, tr) =
     (let P = getAbsolutePath this (resolvedName f k) c;
          tr1 = tr @ cloud_events (fm this) s P
      in case materialize (fm this) s P of
           (Inl e, s1) \<Rightarrow> (Inl e, (s1, tr1))
         | (Inr u, s1) \<Rightarrow> read_rest js (fm this) k P s1 tr1)"
proof -
  define P where "P = getAbsolutePath this (resolvedName f k) c"
  have P: "getAbsolutePath this (if endsWith f (extensionByType k False) then f
              else f @ extensionByType k False) c = P"
    by (simp add: P_def resolvedName_def)
  have rest: "
     io_bind (call_query (fm_fileExists (fm this)) FileExists P) (\<lambda>exists.
      if exists then
        io_catch
          (io_bind (call_read (fm_readString (fm this)) ReadString P) (\<lambda>resStr.
             if k = JSON then
               io_bind (JSON_parse_io js resStr) (\<lambda>v. io_return (DataResponse_new v OK None))
             else if k = JSON_DICT then
               io_bind (JSON_parse_io js resStr) (\<lambda>dict.
                 if typeof dict \<noteq> ''object'' \<or> Array_isArray dict \<or> dict = JNull then
                   io_bind (console_warn ''read: parsed data not a dictionary.'')
                     (\<lambda>_. DataResponse_error None)
                 else io_return (DataResponse_new dict OK None))
             else io_return (DataResponse_new (JString resStr) OK None)))
          (\<lambda>e. io_bind (console_error e) (\<lambda>_. DataResponse_error None))
      else
        io_bind (console_warn (''File '' @ P @ '' does not exist.''))
          (\<lambda>_. DataResponse_notFound None))
      = (\<lambda>w. read_rest js (fm this) k P (fst w) (snd w))"
    by (rule ext)
       (auto simp: io_run io_catch_apply read_rest_def Let_def is_dictionary_def
        DataResponse_new_def split: sum.splits)
  show ?thesis
    unfolding CustomFileManager_read_def Let_def P P_def[symmetric] rest
    by (simp add: io_run materialize_def pending_def cloud_events_def
        split: prod.splits sum.splits)
qed

lemma CustomFileManager_write_run:
  "CustomFileManager_write js this d file k c (s, tr) =
     (let P = getAbsolutePath this
                (resolvedName (case file of None \<Rightarrow> filestub this | Some f \<Rightarrow> f) k) c;
          txt = (if k = JSON \<or> k = JSON_DICT \<or> typeof (write_data_value d) = ''object''
                 then JSON_stringify js (write_data_value d) else narrowed_string d)
      in case fm_writeString (fm this) s P txt of
           (r, s1) \<Rightarrow> (r, (s1, tr @ [WriteString P txt])))"
  by (simp add: CustomFileManager_write_def call_update_def resolvedName_def Let_def)


lemma backend_calls_append: "backend_calls (xs @ ys) = backend_calls xs @ backend_calls ys"
  by (simp add: backend_calls_def)

lemma backend_calls_Cons:
  "backend_calls (e # es) = (if event_path e = None then [] else [e]) @ backend_calls es"
  by (simp add: backend_calls_def)

lemma backend_calls_cloud_events: "backend_calls (cloud_events F s P) = cloud_events F s P"
  by (simp add: backend_calls_def cloud_events_def)

lemma read_rest_calls:
  "backend_calls (snd (snd (read_rest js F k P s1 tr1))) =
     backend_calls tr1 @ FileExists P # (if fm_fileExists F s1 P then [ReadString P] else [])"
  by (simp add: read_rest_def Let_def backend_calls_def split: sum.splits)

lemma CustomFileManager_read_calls:
  "backend_calls (snd (snd (CustomFileManager_read js this f k c (s, tr)))) =
     backend_calls tr
     @ download_exists_read_calls (fm this) s (getAbsolutePath this (resolvedName f k) c)"
  by (simp add: CustomFileManager_read_run Let_def download_exists_read_calls_def
      backend_calls_append backend_calls_cloud_events read_rest_calls
      split: prod.splits sum.splits)

lemma download_exists_read_calls_order:
  "download_exists_read P (pending F s P) (fst (materialize F s P) = Inr ())
     (fm_fileExists F (snd (materialize F s P)) P) (download_exists_read_calls F s P)"
proof -
  obtain r s1 where d: "fm_downloadFileFromiCloud F s P = (r, s1)" by force
  show ?thesis
    using d
    by (cases r)
       (auto simp: download_exists_read_def download_exists_read_calls_def cloud_events_def
          pending_def materialize_def)
qed




subsection \<open>NewFileManager\<close>

lemma readSmartWrapper_missing:
  "\<not> fm_fileExists (nfm_fm this) s (mapPath this p) \<Longrightarrow>
   readSmartWrapper this p fn (s, tr) =
     (Inr \<lparr>data = JNull, status = NOT_FOUND, msg = None\<rparr>,
      (s, tr @ [FileExists (mapPath this p), ConsoleWarn (not_found_warning p)]))"
  by (simp add: readSmartWrapper_def fileExists_def io_defs DataResponse_new_def
      not_found_warning_def)

lemma readSmartWrapper_present:
  "fm_fileExists (nfm_fm this) s (mapPath this p) \<Longrightarrow>
   readSmartWrapper this p fn (s, tr) =
     (case materialize (nfm_fm this) s (mapPath this p) of
        (Inl e, s1) \<Rightarrow>
          (Inl e, (s1, tr @ FileExists (mapPath this p)
                          # cloud_events (nfm_fm this) s (mapPath this p)))
      | (Inr u, s1) \<Rightarrow>
          (case fn p (s1, tr @ FileExists (mapPath this p)
                            # cloud_events (nfm_fm this) s (mapPath this p)) of
             (Inl e, w) \<Rightarrow> (Inl e, w)
           | (Inr v, w) \<Rightarrow> (Inr \<lparr>data = v, status = OK, msg = None\<rparr>, w)))"
  by (simp add: readSmartWrapper_def fileExists_def isFileStoredIniCloud_def
      isFileDownloaded_def downloadFileFromiCloud_def io_defs DataResponse_new_def
      DataResponse_ok_def materialize_def pending_def cloud_events_def
      split: prod.splits sum.splits)

lemma NewFileManager_read_run:
  "NewFileManager_read this p (s, tr) =
     (case fm_read (nfm_fm this) s (mapPath this p) of
        Inl e \<Rightarrow> (Inl e, (s, tr @ [ReadData (mapPath this p)]))
      | Inr d \<Rightarrow> (Inr (JData d), (s, tr @ [ReadData (mapPath this p)])))"
  by (simp add: NewFileManager_read_def io_run split: sum.splits)

lemma readString_run:
  "readString this p (s, tr) =
     (fm_readString (nfm_fm this) s (mapPath this p), (s, tr @ [ReadString (mapPath this p)]))"
  by (simp add: readString_def call_read_def)

lemma readImage_run:
  "readImage this p (s, tr) =
     (case fm_readImage (nfm_fm this) s (mapPath this p) of
        Inl e \<Rightarrow> (Inl e, (s, tr @ [ReadImage (mapPath this p)]))
      | Inr d \<Rightarrow> (Inr (JImage d), (s, tr @ [ReadImage (mapPath this p)])))"
  by (simp add: readImage_def io_run split: sum.splits)

lemma readJSON_run:
  "readJSON js this p False (s, tr) =
     (case fm_readString (nfm_fm this) s (mapPath this p) of
        Inl e \<Rightarrow> (Inl e, (s, tr @ [ReadString (mapPath this p)]))
      | Inr txt \<Rightarrow> (JSON_parse js txt, (s, tr @ [ReadString (mapPath this p)])))"
  by (simp add: readJSON_def readString_def io_run JSON_parse_io_def split: sum.splits)

lemma readJSONDict_run:
  "readJSONDict js this p False (s, tr) =
     (case fm_readString (nfm_fm this) s (mapPath this p) of
        Inl e \<Rightarrow> (Inl e, (s, tr @ [ReadString (mapPath this p)]))
      | Inr txt \<Rightarrow>
          (case JSON_parse js txt of
             Inl e \<Rightarrow> (Inl e, (s, tr @ [ReadString (mapPath this p)]))
           | Inr v \<Rightarrow>
               if is_dictionary v then (Inr v, (s, tr @ [ReadString (mapPath this p)]))
               else (Inr JNull, (s, tr @ [ReadString (mapPath this p),
                      ConsoleWarn (''readJSONDict: data not a dictionary.(''
                                   @ typeof v @ '')'')]))))"
  by (simp add: readJSONDict_def io_bind_def readJSON_run is_dictionary_def io_return_def
      console_warn_def emit_def split: sum.splits)

lemma json_non_object_not_dictionary: "json_non_object v \<Longrightarrow> \<not> is_dictionary v"
  by (cases v) (simp_all add: is_dictionary_def)

lemma readSmartWrapper_calls:
  assumes fn: "\<And>s1 tr1. \<exists>r evs. fn p (s1, tr1) = (r, (s1, tr1 @ rd # evs))
                  \<and> backend_calls evs = []"
    and rd: "event_path rd \<noteq> None"
  shows "backend_calls (snd (snd (readSmartWrapper this p fn (s, tr)))) =
           backend_calls tr
           @ exists_download_read_calls (nfm_fm this) s (mapPath this p) rd"
proof (cases "fm_fileExists (nfm_fm this) s (mapPath this p)")
  case False
  then show ?thesis
    by (simp add: readSmartWrapper_missing exists_download_read_calls_def backend_calls_def)
next
  case True
  obtain r s1 where m: "materialize (nfm_fm this) s (mapPath this p) = (r, s1)" by force
  obtain q evs where q: "fn p (s1, tr @ FileExists (mapPath this p)
        # cloud_events (nfm_fm this) s (mapPath this p))
      = (q, (s1, (tr @ FileExists (mapPath this p)
                  # cloud_events (nfm_fm this) s (mapPath this p)) @ rd # evs))"
      "backend_calls evs = []"
    using fn[of s1 "tr @ FileExists (mapPath this p)
                    # cloud_events (nfm_fm this) s (mapPath this p)"]
    by auto
  show ?thesis
    using True m q rd
    by (cases r; cases q)
       (simp_all add: readSmartWrapper_present exists_download_read_calls_def
          backend_calls_append backend_calls_Cons backend_calls_cloud_events)
qed

lemma exists_download_read_calls_order:
  assumes "rd = ReadData P \<or> rd = ReadString P \<or> rd = ReadImage P"
  shows "exists_download_read P rd (fm_fileExists F s P) (pending F s P)
           (fst (materialize F s P) = Inr ()) (exists_download_read_calls F s P rd)"
proof -
  obtain r s1 where d: "fm_downloadFileFromiCloud F s P = (r, s1)" by force
  show ?thesis
    using assms d
    by (cases r)
       (auto simp: exists_download_read_def exists_download_read_calls_def cloud_events_def
          pending_def materialize_def)
qed

lemmas reader_defs = readS_def readStringS_def readImageS_def readJSONS_def readJSONDictS_def
  Let_def

lemmas readers = reader_defs jsonPath_def[symmetric]

lemma readSmartWrapper_calls_from_empty:
  assumes "\<And>s1 tr1. \<exists>r evs. fn p (s1, tr1) = (r, (s1, tr1 @ rd # evs))
                  \<and> backend_calls evs = []"
    and "event_path rd \<noteq> None"
  shows "backend_calls (snd (snd (readSmartWrapper this p fn (s, [])))) =
           exists_download_read_calls (nfm_fm this) s (mapPath this p) rd"
  using readSmartWrapper_calls[of fn p rd this s "[]"] assms
  by (simp add: backend_calls_def)

lemma reader_calls:
  "backend_calls (snd (snd (readS this p (s, [])))) =
     exists_download_read_calls (nfm_fm this) s (mapPath this p) (ReadData (mapPath this p))"
  "backend_calls (snd (snd (readStringS this p (s, [])))) =
     exists_download_read_calls (nfm_fm this) s (mapPath this p) (ReadString (mapPath this p))"
  "backend_calls (snd (snd (readImageS this p (s, [])))) =
     exists_download_read_calls (nfm_fm this) s (mapPath this p) (ReadImage (mapPath this p))"
  "backend_calls (snd (snd (readJSONS js this p auto (s, [])))) =
     exists_download_read_calls (nfm_fm this) s (mapPath this (jsonPath p auto))
       (ReadString (mapPath this (jsonPath p auto)))"
  "backend_calls (snd (snd (readJSONDictS js this p auto (s, [])))) =
     exists_download_read_calls (nfm_fm this) s (mapPath this (jsonPath p auto))
       (ReadString (mapPath this (jsonPath p auto)))"
proof -
  show "backend_calls (snd (snd (readS this p (s, [])))) =
     exists_download_read_calls (nfm_fm this) s (mapPath this p) (ReadData (mapPath this p))"
    unfolding readS_def Let_def
    by (rule readSmartWrapper_calls_from_empty)
       (simp_all add: NewFileManager_read_run backend_calls_def split: sum.splits)
  show "backend_calls (snd (snd (readStringS this p (s, [])))) =
     exists_download_read_calls (nfm_fm this) s (mapPath this p) (ReadString (mapPath this p))"
    unfolding readStringS_def Let_def
    by (rule readSmartWrapper_calls_from_empty)
       (simp_all add: readString_run io_bind_def io_return_def backend_calls_def
          split: sum.splits)
  show "backend_calls (snd (snd (readImageS this p (s, [])))) =
     exists_download_read_calls (nfm_fm this) s (mapPath this p) (ReadImage (mapPath this p))"
    unfolding readImageS_def Let_def
    by (rule readSmartWrapper_calls_from_empty)
       (simp_all add: readImage_run backend_calls_def split: sum.splits)
  show "backend_calls (snd (snd (readJSONS js this p auto (s, [])))) =
     exists_download_read_calls (nfm_fm this) s (mapPath this (jsonPath p auto))
       (ReadString (mapPath this (jsonPath p auto)))"
    unfolding readJSONS_def Let_def jsonPath_def[symmetric]
    by (rule readSmartWrapper_calls_from_empty)
       (simp_all add: readJSON_run backend_calls_def split: sum.splits)
  show "backend_calls (snd (snd (readJSONDictS js this p auto (s, [])))) =
     exists_download_read_calls (nfm_fm this) s (mapPath this (jsonPath p auto))
       (ReadString (mapPath this (jsonPath p auto)))"
    unfolding readJSONDictS_def Let_def jsonPath_def[symmetric] if_True
    by (rule readSmartWrapper_calls_from_empty)
       (simp_all add: readJSONDict_run backend_calls_def split: sum.splits)
qed

lemmas sample_defs = sample_cfm_def sample_nfm_def sample_JSON_def mem_FileManager_def
  mem_get_def cloud_array_file_def cloud_array_file_downloaded_def malformed_json_file_def
  getAbsolutePath_def mapPath_def resolvedName_def jsonPath_def extensionByType_def
  endsWith_def materialize_def pending_def



section \<open>Path resolution and serialization\<close>





text \<open>
  C7. \<open>write\<close> with a record as payload calls the backend's \<open>writeString\<close> once, on the
  resolved path, with \<open>JSON.stringify\<close> of the record, whatever the declared type; with a
  string as payload and type \<open>TEXT\<close> it passes the string itself. The result and the new
  backend state are those of the backend's \<open>writeString\<close>.
\<close>

theorem write_serializes_records:
  "CustomFileManager_write js this (RecordData kvs) file k c (s, tr) =
     (let P = getAbsolutePath this
                (resolvedName (case file of None \<Rightarrow> filestub this | Some f \<Rightarrow> f) k) c;
          txt = JSON_stringify js (JObject kvs)
      in case fm_writeString (fm this) s P txt of
           (r, s1) \<Rightarrow> (r, (s1, tr @ [WriteString P txt])))
   \<and> CustomFileManager_write js this (StringData t) file TEXT c (s, tr) =
     (let P = getAbsolutePath this
                (resolvedName (case file of None \<Rightarrow> filestub this | Some f \<Rightarrow> f) TEXT) c
      in case fm_writeString (fm this) s P t of
           (r, s1) \<Rightarrow> (r, (s1, tr @ [WriteString P t])))"
  by (simp add: CustomFileManager_write_run Let_def)

text \<open>
  The in-memory backend keeps what is written, in every state: after \<open>writeString\<close> the
  file is not pending, exists, and reads as the text written.
\<close>

lemma mem_FileManager_keeps_writes:
  "fm_writeString mem_FileManager s p c
     = (Inr (), (p, MemFile c (case map_of s p of None \<Rightarrow> False
                                | Some f \<Rightarrow> stored_in_icloud f) True) # s)"
  "fm_writeString mem_FileManager s p c = (r, s1) \<Longrightarrow>
     materialize mem_FileManager s1 p = (Inr (), s1)
     \<and> fm_fileExists mem_FileManager s1 p
     \<and> fm_readString mem_FileManager s1 p = Inr c"
  by (auto simp: mem_FileManager_def materialize_def pending_def mem_get_def)

text \<open>
  C4. Writing the record \<open>{"a": one}\<close> to \<open>rec\<close> with type \<open>JSON\<close> and then reading \<open>rec\<close>
  with type \<open>JSON_DICT\<close> returns the response with status \<open>OK\<close> and that record as
  payload. The runtime and the backend are parameters; what is assumed of them is that
  \<open>JSON.parse\<close> reads back what \<open>JSON.stringify\<close> wrote for this record, that the
  backend's \<open>writeString\<close> returns, and that after it the conditional download returns and
  the file exists and reads as the text written.
\<close>

theorem write_then_read_round_trip:
  assumes parse: "JSON_parse js (JSON_stringify js (JObject [(''a'', JNumber one)]))
                    = Inr (JObject [(''a'', JNumber one)])"
    and wr: "fm_writeString (fm this) s (getAbsolutePath this ''rec.json'' c)
               (JSON_stringify js (JObject [(''a'', JNumber one)])) = (Inr (), s1)"
    and dl: "materialize (fm this) s1 (getAbsolutePath this ''rec.json'' c) = (Inr (), s2)"
    and ex: "fm_fileExists (fm this) s2 (getAbsolutePath this ''rec.json'' c)"
    and rd: "fm_readString (fm this) s2 (getAbsolutePath this ''rec.json'' c)
               = Inr (JSON_stringify js (JObject [(''a'', JNumber one)]))"
  shows "fst (io_bind
                (CustomFileManager_write js this (RecordData [(''a'', JNumber one)])
                   (Some ''rec'') JSON c)
                (\<lambda>_. CustomFileManager_read js this ''rec'' JSON_DICT c) (s, tr))
         = Inr \<lparr>data = JObject [(''a'', JNumber one)], status = OK, msg = None\<rparr>"
proof -
  have n: "resolvedName ''rec'' JSON = ''rec.json''"
    "resolvedName ''rec'' JSON_DICT = ''rec.json''"
    by (simp_all add: resolvedName_def endsWith_def extensionByType_def)
  have w: "CustomFileManager_write js this (RecordData [(''a'', JNumber one)])
             (Some ''rec'') JSON c (s, tr)
           = (Inr (), (s1, tr @ [WriteString (getAbsolutePath this ''rec.json'' c)
                (JSON_stringify js (JObject [(''a'', JNumber one)]))]))"
    using wr by (simp add: CustomFileManager_write_run n)
  show ?thesis
    using dl ex rd parse
    by (simp add: io_bind_def w CustomFileManager_read_run n read_rest_def is_dictionary_def
        Let_def)
qed

text \<open>
  The round trip on the in-memory backend, from the empty store: the write creates
  \<open>/docs/cfg/rec.json\<close> and the read returns the record.
\<close>

theorem write_then_read_round_trip_witness:
  "fst (io_bind
          (CustomFileManager_write sample_JSON sample_cfm (RecordData [(''a'', JNumber 1)])
             (Some ''rec'') JSON True)
          (\<lambda>_. CustomFileManager_read sample_JSON sample_cfm ''rec'' JSON_DICT True) ([], []))
   = Inr \<lparr>data = JObject [(''a'', JNumber 1)], status = OK, msg = None\<rparr>"
  by (rule write_then_read_round_trip[where ?s1.0 = "[(''/docs/cfg/rec.json'',
        MemFile (''{'' @ [CHR 0x22] @ ''a'' @ [CHR 0x22] @ '':1}'') False True)]"
      and ?s2.0 = "[(''/docs/cfg/rec.json'',
        MemFile (''{'' @ [CHR 0x22] @ ''a'' @ [CHR 0x22] @ '':1}'') False True)]"])
     (simp_all add: sample_defs)


section \<open>Safe reads\<close>

text \<open>
  C5. A safe reader of \<open>NewFileManager\<close> returns the response with status \<open>NOT_FOUND\<close> and
  payload \<open>null\<close> when the backend says that the path it checks does not exist (for the
  JSON readers that path is \<open>jsonPath\<close>). \<open>CustomFileManager.read\<close> checks existence after
  its conditional download: it returns the same response, for every type, when that
  download returns and the backend then says that the resolved path does not exist. The
  response is empty.
\<close>

theorem missing_file_not_found:
  "(\<not> fm_fileExists (nfm_fm this) s (mapPath this p) \<longrightarrow>
      fst (readS this p (s, tr)) = Inr \<lparr>data = JNull, status = NOT_FOUND, msg = None\<rparr>
    \<and> fst (readStringS this p (s, tr)) = Inr \<lparr>data = JNull, status = NOT_FOUND, msg = None\<rparr>
    \<and> fst (readImageS this p (s, tr)) = Inr \<lparr>data = JNull, status = NOT_FOUND, msg = None\<rparr>)
   \<and> (\<not> fm_fileExists (nfm_fm this) s (mapPath this (jsonPath p auto)) \<longrightarrow>
      fst (readJSONS js this p auto (s, tr))
        = Inr \<lparr>data = JNull, status = NOT_FOUND, msg = None\<rparr>
    \<and> fst (readJSONDictS js this p auto (s, tr))
        = Inr \<lparr>data = JNull, status = NOT_FOUND, msg = None\<rparr>)
   \<and> (materialize (fm cfm) s (getAbsolutePath cfm (resolvedName f k) c) = (Inr (), s1)
      \<and> \<not> fm_fileExists (fm cfm) s1 (getAbsolutePath cfm (resolvedName f k) c) \<longrightarrow>
      fst (CustomFileManager_read js cfm f k c (s, tr))
        = Inr \<lparr>data = JNull, status = NOT_FOUND, msg = None\<rparr>)
   \<and> isEmpty \<lparr>data = JNull :: 'n jsval, status = NOT_FOUND, msg = None\<rparr>"
  by (simp add: readers readSmartWrapper_missing CustomFileManager_read_run read_rest_def
      isEmpty_def)

text \<open>Reading \<open>missing\<close> from the empty in-memory store, with each reader.\<close>

theorem missing_file_not_found_witness:
  "\<not> fm_fileExists (nfm_fm sample_nfm) [] (mapPath sample_nfm ''missing'')
   \<and> \<not> fm_fileExists (nfm_fm sample_nfm) [] (mapPath sample_nfm (jsonPath ''missing'' True))
   \<and> materialize (fm sample_cfm) []
        (getAbsolutePath sample_cfm (resolvedName ''missing'' JSON_DICT) True) = (Inr (), [])
   \<and> \<not> fm_fileExists (fm sample_cfm) []
        (getAbsolutePath sample_cfm (resolvedName ''missing'' JSON_DICT) True)
   \<and> fst (readS sample_nfm ''missing'' ([], []))
       = Inr \<lparr>data = JNull :: int jsval, status = NOT_FOUND, msg = None\<rparr>
   \<and> fst (readStringS sample_nfm ''missing'' ([], []))
       = Inr \<lparr>data = JNull :: int jsval, status = NOT_FOUND, msg = None\<rparr>
   \<and> fst (readImageS sample_nfm ''missing'' ([], []))
       = Inr \<lparr>data = JNull :: int jsval, status = NOT_FOUND, msg = None\<rparr>
   \<and> fst (readJSONS sample_JSON sample_nfm ''missing'' True ([], []))
       = Inr \<lparr>data = JNull, status = NOT_FOUND, msg = None\<rparr>
   \<and> fst (readJSONDictS sample_JSON sample_nfm ''missing'' True ([], []))
       = Inr \<lparr>data = JNull, status = NOT_FOUND, msg = None\<rparr>
   \<and> fst (CustomFileManager_read sample_JSON sample_cfm ''missing'' JSON_DICT True ([], []))
       = Inr \<lparr>data = JNull, status = NOT_FOUND, msg = None\<rparr>"
proof -
  have h: "\<not> fm_fileExists (nfm_fm sample_nfm) [] (mapPath sample_nfm ''missing'')"
    "\<not> fm_fileExists (nfm_fm sample_nfm) [] (mapPath sample_nfm (jsonPath ''missing'' True))"
    "materialize (fm sample_cfm) []
        (getAbsolutePath sample_cfm (resolvedName ''missing'' JSON_DICT) True) = (Inr (), [])"
    "\<not> fm_fileExists (fm sample_cfm) []
        (getAbsolutePath sample_cfm (resolvedName ''missing'' JSON_DICT) True)"
    by (simp_all add: sample_defs)
  from h missing_file_not_found[where this = sample_nfm and s = "[]" and p = "''missing''"
      and tr = "[]" and auto = True and js = sample_JSON and cfm = sample_cfm
      and f = "''missing''" and k = JSON_DICT and c = True and ?s1.0 = "[]"]
  show ?thesis by blast
qed

text \<open>
  C2, as the code has it. The file exists when it is checked, the conditional download
  returns, and the text read parses to a value that is not an object (\<open>null\<close>, a scalar or
  an array). Then \<open>CustomFileManager.read\<close> with type \<open>JSON_DICT\<close> returns the response
  with status \<open>ERROR\<close> and payload \<open>null\<close>, and \<open>readJSONDictS\<close> returns the response with
  status \<open>OK\<close> and payload \<open>null\<close>: \<open>readJSONDict\<close> turns the value into \<open>null\<close>, and the
  wrapper wraps it with \<open>DataResponse.ok\<close>. Neither returns the parsed value.
\<close>

theorem non_object_json_read:
  "(materialize (fm cfm) s (getAbsolutePath cfm (resolvedName f JSON_DICT) c) = (Inr (), s1)
      \<and> fm_fileExists (fm cfm) s1 (getAbsolutePath cfm (resolvedName f JSON_DICT) c)
      \<and> fm_readString (fm cfm) s1 (getAbsolutePath cfm (resolvedName f JSON_DICT) c) = Inr src
      \<and> JSON_parse js src = Inr v \<and> json_non_object v \<longrightarrow>
      fst (CustomFileManager_read js cfm f JSON_DICT c (s, tr))
        = Inr \<lparr>data = JNull, status = ERROR, msg = None\<rparr>)
   \<and> (fm_fileExists (nfm_fm this) s (mapPath this (jsonPath p auto))
      \<and> materialize (nfm_fm this) s (mapPath this (jsonPath p auto)) = (Inr (), s2)
      \<and> fm_readString (nfm_fm this) s2 (mapPath this (jsonPath p auto)) = Inr src
      \<and> JSON_parse js src = Inr v \<and> json_non_object v \<longrightarrow>
      fst (readJSONDictS js this p auto (s, tr))
        = Inr \<lparr>data = JNull, status = OK, msg = None\<rparr>)"
  by (simp add: readers readSmartWrapper_present CustomFileManager_read_run read_rest_def
      readJSONDict_run json_non_object_not_dictionary)

text \<open>
  Both readers on the file \<open>/docs/cfg/rec.json\<close> that holds \<open>[1,2,3]\<close>, is stored in iCloud
  and is not yet downloaded.
\<close>

theorem non_object_json_read_witness:
  "materialize mem_FileManager cloud_array_file ''/docs/cfg/rec.json''
     = (Inr (), cloud_array_file_downloaded)
   \<and> fm_fileExists mem_FileManager cloud_array_file ''/docs/cfg/rec.json''
   \<and> fm_fileExists mem_FileManager cloud_array_file_downloaded ''/docs/cfg/rec.json''
   \<and> fm_readString mem_FileManager cloud_array_file_downloaded ''/docs/cfg/rec.json''
       = Inr ''[1,2,3]''
   \<and> JSON_parse sample_JSON ''[1,2,3]'' = Inr (JArray [JNumber 1, JNumber 2, JNumber 3])
   \<and> json_non_object (JArray [JNumber (1::int), JNumber 2, JNumber 3])
   \<and> fst (CustomFileManager_read sample_JSON sample_cfm ''rec'' JSON_DICT True
             (cloud_array_file, []))
       = Inr \<lparr>data = JNull, status = ERROR, msg = None\<rparr>
   \<and> fst (readJSONDictS sample_JSON sample_nfm ''rec'' True (cloud_array_file, []))
       = Inr \<lparr>data = JNull, status = OK, msg = None\<rparr>"
  using non_object_json_read[where cfm = sample_cfm and s = cloud_array_file
      and f = "''rec''" and c = True and ?s1.0 = cloud_array_file_downloaded
      and src = "''[1,2,3]''" and js = sample_JSON
      and v = "JArray [JNumber 1, JNumber 2, JNumber 3]" and this = sample_nfm
      and p = "''rec''" and auto = True and ?s2.0 = cloud_array_file_downloaded
      and tr = "[]"]
  by (simp add: sample_defs)

text \<open>
  C2 as stated fails for \<open>readJSONDictS\<close>: on an existing local file that holds \<open>[1,2,3]\<close>
  its status is \<open>OK\<close>, not \<open>ERROR\<close>.
\<close>

theorem readJSONDictS_array_status_OK:
  "fst (readJSONDictS sample_JSON sample_nfm ''rec'' True
          ([(''/docs/cfg/rec.json'', MemFile ''[1,2,3]'' False True)], []))
     = Inr \<lparr>data = JNull, status = OK, msg = None\<rparr>"
  by (simp add: reader_defs readSmartWrapper_present readJSONDict_run is_dictionary_def
      sample_defs)


text \<open>
  C3, as the code has it. The backend calls of each safe reader of \<open>NewFileManager\<close> are
  exactly \<open>exists_download_read_calls\<close>: the existence check first; then, only if the file
  exists, the conditional download (which downloads if and only if the file is stored in
  iCloud and not downloaded); then, only if that returned, the raw read. They are in the
  order \<open>exists_download_read\<close>. The backend calls of \<open>CustomFileManager.read\<close>, for every
  type, are exactly \<open>download_exists_read_calls\<close>: the conditional download first; then,
  if it returned, the existence check; then, only if the file exists, the raw read. They
  are in the order \<open>download_exists_read\<close>.
\<close>

theorem safe_read_order:
  fixes js :: "'n JSRuntime"
  shows
  "backend_calls (snd (snd (readS this p (s, [])
          :: (exn + 'n jsval DataResponse) \<times> 's \<times> event list)))
     = exists_download_read_calls (nfm_fm this) s (mapPath this p) (ReadData (mapPath this p))
   \<and> backend_calls (snd (snd (readStringS this p (s, [])
          :: (exn + 'n jsval DataResponse) \<times> 's \<times> event list)))
     = exists_download_read_calls (nfm_fm this) s (mapPath this p) (ReadString (mapPath this p))
   \<and> backend_calls (snd (snd (readImageS this p (s, [])
          :: (exn + 'n jsval DataResponse) \<times> 's \<times> event list)))
     = exists_download_read_calls (nfm_fm this) s (mapPath this p) (ReadImage (mapPath this p))
   \<and> backend_calls (snd (snd (readJSONS js this p auto (s, []))))
     = exists_download_read_calls (nfm_fm this) s (mapPath this (jsonPath p auto))
         (ReadString (mapPath this (jsonPath p auto)))
   \<and> backend_calls (snd (snd (readJSONDictS js this p auto (s, []))))
     = exists_download_read_calls (nfm_fm this) s (mapPath this (jsonPath p auto))
         (ReadString (mapPath this (jsonPath p auto)))
   \<and> backend_calls (snd (snd (CustomFileManager_read js cfm f k c (s, []))))
     = download_exists_read_calls (fm cfm) s (getAbsolutePath cfm (resolvedName f k) c)
   \<and> exists_download_read (mapPath this p) (ReadData (mapPath this p))
       (fm_fileExists (nfm_fm this) s (mapPath this p))
       (pending (nfm_fm this) s (mapPath this p))
       (fst (materialize (nfm_fm this) s (mapPath this p)) = Inr ())
       (backend_calls (snd (snd (readS this p (s, [])
          :: (exn + 'n jsval DataResponse) \<times> 's \<times> event list))))
   \<and> exists_download_read (mapPath this p) (ReadString (mapPath this p))
       (fm_fileExists (nfm_fm this) s (mapPath this p))
       (pending (nfm_fm this) s (mapPath this p))
       (fst (materialize (nfm_fm this) s (mapPath this p)) = Inr ())
       (backend_calls (snd (snd (readStringS this p (s, [])
          :: (exn + 'n jsval DataResponse) \<times> 's \<times> event list))))
   \<and> exists_download_read (mapPath this p) (ReadImage (mapPath this p))
       (fm_fileExists (nfm_fm this) s (mapPath this p))
       (pending (nfm_fm this) s (mapPath this p))
       (fst (materialize (nfm_fm this) s (mapPath this p)) = Inr ())
       (backend_calls (snd (snd (readImageS this p (s, [])
          :: (exn + 'n jsval DataResponse) \<times> 's \<times> event list))))
   \<and> exists_download_read (mapPath this (jsonPath p auto))
       (ReadString (mapPath this (jsonPath p auto)))
       (fm_fileExists (nfm_fm this) s (mapPath this (jsonPath p auto)))
       (pending (nfm_fm this) s (mapPath this (jsonPath p auto)))
       (fst (materialize (nfm_fm this) s (mapPath this (jsonPath p auto))) = Inr ())
       (backend_calls (snd (snd (readJSONS js this p auto (s, [])))))
   \<and> exists_download_read (mapPath this (jsonPath p auto))
       (ReadString (mapPath this (jsonPath p auto)))
       (fm_fileExists (nfm_fm this) s (mapPath this (jsonPath p auto)))
       (pending (nfm_fm this) s (mapPath this (jsonPath p auto)))
       (fst (materialize (nfm_fm this) s (mapPath this (jsonPath p auto))) = Inr ())
       (backend_calls (snd (snd (readJSONDictS js this p auto (s, [])))))
   \<and> download_exists_read (getAbsolutePath cfm (resolvedName f k) c)
       (pending (fm cfm) s (getAbsolutePath cfm (resolvedName f k) c))
       (fst (materialize (fm cfm) s (getAbsolutePath cfm (resolvedName f k) c)) = Inr ())
       (fm_fileExists (fm cfm)
          (snd (materialize (fm cfm) s (getAbsolutePath cfm (resolvedName f k) c)))
          (getAbsolutePath cfm (resolvedName f k) c))
       (backend_calls (snd (snd (CustomFileManager_read js cfm f k c (s, [])))))"
proof -
  have e: "backend_calls [] = []" by (simp add: backend_calls_def)
  show ?thesis
    using CustomFileManager_read_calls[of js cfm f k c s "[]"]
    by (simp add: reader_calls e exists_download_read_calls_order
        download_exists_read_calls_order)
qed


text \<open>
  The two orders on the pending file \<open>/docs/cfg/rec.json\<close> of the in-memory backend: the
  file exists, is pending, and the download returns; the calls of the six readers.
\<close>

theorem safe_read_order_witness:
  "fm_fileExists mem_FileManager cloud_array_file ''/docs/cfg/rec.json''
   \<and> pending mem_FileManager cloud_array_file ''/docs/cfg/rec.json''
   \<and> materialize mem_FileManager cloud_array_file ''/docs/cfg/rec.json''
       = (Inr (), cloud_array_file_downloaded)
   \<and> fm_fileExists mem_FileManager cloud_array_file_downloaded ''/docs/cfg/rec.json''
   \<and> backend_calls (snd (snd (readS sample_nfm ''rec.json'' (cloud_array_file, [])
                                :: (exn + int jsval DataResponse) \<times> mem_fs \<times> event list)))
       = [FileExists ''/docs/cfg/rec.json'', IsFileStoredIniCloud ''/docs/cfg/rec.json'',
          IsFileDownloaded ''/docs/cfg/rec.json'', DownloadFileFromiCloud ''/docs/cfg/rec.json'',
          ReadData ''/docs/cfg/rec.json'']
   \<and> backend_calls (snd (snd (readStringS sample_nfm ''rec.json'' (cloud_array_file, [])
                                :: (exn + int jsval DataResponse) \<times> mem_fs \<times> event list)))
       = [FileExists ''/docs/cfg/rec.json'', IsFileStoredIniCloud ''/docs/cfg/rec.json'',
          IsFileDownloaded ''/docs/cfg/rec.json'', DownloadFileFromiCloud ''/docs/cfg/rec.json'',
          ReadString ''/docs/cfg/rec.json'']
   \<and> backend_calls (snd (snd (readImageS sample_nfm ''rec.json'' (cloud_array_file, [])
                                :: (exn + int jsval DataResponse) \<times> mem_fs \<times> event list)))
       = [FileExists ''/docs/cfg/rec.json'', IsFileStoredIniCloud ''/docs/cfg/rec.json'',
          IsFileDownloaded ''/docs/cfg/rec.json'', DownloadFileFromiCloud ''/docs/cfg/rec.json'',
          ReadImage ''/docs/cfg/rec.json'']
   \<and> backend_calls (snd (snd (readJSONS sample_JSON sample_nfm ''rec'' True
                                (cloud_array_file, []))))
       = [FileExists ''/docs/cfg/rec.json'', IsFileStoredIniCloud ''/docs/cfg/rec.json'',
          IsFileDownloaded ''/docs/cfg/rec.json'', DownloadFileFromiCloud ''/docs/cfg/rec.json'',
          ReadString ''/docs/cfg/rec.json'']
   \<and> backend_calls (snd (snd (readJSONDictS sample_JSON sample_nfm ''rec'' True
                                (cloud_array_file, []))))
       = [FileExists ''/docs/cfg/rec.json'', IsFileStoredIniCloud ''/docs/cfg/rec.json'',
          IsFileDownloaded ''/docs/cfg/rec.json'', DownloadFileFromiCloud ''/docs/cfg/rec.json'',
          ReadString ''/docs/cfg/rec.json'']
   \<and> backend_calls (snd (snd (CustomFileManager_read sample_JSON sample_cfm ''rec'' JSON True
                                (cloud_array_file, []))))
       = [IsFileStoredIniCloud ''/docs/cfg/rec.json'', IsFileDownloaded ''/docs/cfg/rec.json'',
          DownloadFileFromiCloud ''/docs/cfg/rec.json'', FileExists ''/docs/cfg/rec.json'',
          ReadString ''/docs/cfg/rec.json'']
   \<and> exists_download_read ''/docs/cfg/rec.json'' (ReadString ''/docs/cfg/rec.json'')
       True True True
       [FileExists ''/docs/cfg/rec.json'', IsFileStoredIniCloud ''/docs/cfg/rec.json'',
        IsFileDownloaded ''/docs/cfg/rec.json'', DownloadFileFromiCloud ''/docs/cfg/rec.json'',
        ReadString ''/docs/cfg/rec.json'']
   \<and> download_exists_read ''/docs/cfg/rec.json'' True True True
       [IsFileStoredIniCloud ''/docs/cfg/rec.json'', IsFileDownloaded ''/docs/cfg/rec.json'',
        DownloadFileFromiCloud ''/docs/cfg/rec.json'', FileExists ''/docs/cfg/rec.json'',
        ReadString ''/docs/cfg/rec.json'']"
proof -
  have st: "fm_fileExists mem_FileManager cloud_array_file ''/docs/cfg/rec.json'' = True"
    "pending mem_FileManager cloud_array_file ''/docs/cfg/rec.json'' = True"
    "materialize mem_FileManager cloud_array_file ''/docs/cfg/rec.json''
       = (Inr (), cloud_array_file_downloaded)"
    "fm_fileExists mem_FileManager cloud_array_file_downloaded ''/docs/cfg/rec.json'' = True"
    by (simp_all add: sample_defs)
  have paths: "mapPath sample_nfm ''rec.json'' = ''/docs/cfg/rec.json''"
    "mapPath sample_nfm (jsonPath ''rec'' True) = ''/docs/cfg/rec.json''"
    "getAbsolutePath sample_cfm (resolvedName ''rec'' JSON) True = ''/docs/cfg/rec.json''"
    "nfm_fm sample_nfm = mem_FileManager" "fm sample_cfm = mem_FileManager"
    by (simp_all add: sample_cfm_def sample_nfm_def mem_FileManager_def getAbsolutePath_def
        mapPath_def resolvedName_def jsonPath_def extensionByType_def endsWith_def)
  have calls: "\<And>rd. exists_download_read_calls mem_FileManager cloud_array_file
                 ''/docs/cfg/rec.json'' rd
       = [FileExists ''/docs/cfg/rec.json'', IsFileStoredIniCloud ''/docs/cfg/rec.json'',
          IsFileDownloaded ''/docs/cfg/rec.json'', DownloadFileFromiCloud ''/docs/cfg/rec.json'',
          rd]"
    "download_exists_read_calls mem_FileManager cloud_array_file ''/docs/cfg/rec.json''
       = [IsFileStoredIniCloud ''/docs/cfg/rec.json'', IsFileDownloaded ''/docs/cfg/rec.json'',
          DownloadFileFromiCloud ''/docs/cfg/rec.json'', FileExists ''/docs/cfg/rec.json'',
          ReadString ''/docs/cfg/rec.json'']"
    by (simp_all add: exists_download_read_calls_def download_exists_read_calls_def
        cloud_events_def sample_defs)
  note a = safe_read_order[where this = sample_nfm and s = cloud_array_file
      and p = "''rec.json''" and auto = True and js = sample_JSON and cfm = sample_cfm
      and f = "''rec''" and k = JSON and c = True]
  note b = safe_read_order[where this = sample_nfm and s = cloud_array_file
      and p = "''rec''" and auto = True and js = sample_JSON and cfm = sample_cfm
      and f = "''rec''" and k = JSON and c = True]
  have c1: "backend_calls (snd (snd (readS sample_nfm ''rec.json'' (cloud_array_file, [])
                                :: (exn + int jsval DataResponse) \<times> mem_fs \<times> event list)))
       = [FileExists ''/docs/cfg/rec.json'', IsFileStoredIniCloud ''/docs/cfg/rec.json'',
          IsFileDownloaded ''/docs/cfg/rec.json'', DownloadFileFromiCloud ''/docs/cfg/rec.json'',
          ReadData ''/docs/cfg/rec.json'']"
    using a by (simp add: paths st calls)
  have c2: "backend_calls (snd (snd (readStringS sample_nfm ''rec.json'' (cloud_array_file, [])
                                :: (exn + int jsval DataResponse) \<times> mem_fs \<times> event list)))
       = [FileExists ''/docs/cfg/rec.json'', IsFileStoredIniCloud ''/docs/cfg/rec.json'',
          IsFileDownloaded ''/docs/cfg/rec.json'', DownloadFileFromiCloud ''/docs/cfg/rec.json'',
          ReadString ''/docs/cfg/rec.json'']"
    using a by (simp add: paths st calls)
  have c3: "backend_calls (snd (snd (readImageS sample_nfm ''rec.json'' (cloud_array_file, [])
                                :: (exn + int jsval DataResponse) \<times> mem_fs \<times> event list)))
       = [FileExists ''/docs/cfg/rec.json'', IsFileStoredIniCloud ''/docs/cfg/rec.json'',
          IsFileDownloaded ''/docs/cfg/rec.json'', DownloadFileFromiCloud ''/docs/cfg/rec.json'',
          ReadImage ''/docs/cfg/rec.json'']"
    using a by (simp add: paths st calls)
  have c4: "backend_calls (snd (snd (readJSONS sample_JSON sample_nfm ''rec'' True
                                (cloud_array_file, []))))
       = [FileExists ''/docs/cfg/rec.json'', IsFileStoredIniCloud ''/docs/cfg/rec.json'',
          IsFileDownloaded ''/docs/cfg/rec.json'', DownloadFileFromiCloud ''/docs/cfg/rec.json'',
          ReadString ''/docs/cfg/rec.json'']"
    using b by (simp add: paths st calls)
  have c5: "backend_calls (snd (snd (readJSONDictS sample_JSON sample_nfm ''rec'' True
                                (cloud_array_file, []))))
       = [FileExists ''/docs/cfg/rec.json'', IsFileStoredIniCloud ''/docs/cfg/rec.json'',
          IsFileDownloaded ''/docs/cfg/rec.json'', DownloadFileFromiCloud ''/docs/cfg/rec.json'',
          ReadString ''/docs/cfg/rec.json'']"
    using b by (simp add: paths st calls)
  have c6: "backend_calls (snd (snd (CustomFileManager_read sample_JSON sample_cfm ''rec'' JSON
                                True (cloud_array_file, []))))
       = [IsFileStoredIniCloud ''/docs/cfg/rec.json'', IsFileDownloaded ''/docs/cfg/rec.json'',
          DownloadFileFromiCloud ''/docs/cfg/rec.json'', FileExists ''/docs/cfg/rec.json'',
          ReadString ''/docs/cfg/rec.json'']"
    using a by (simp add: paths st calls)
  from a have a2: "exists_download_read (mapPath sample_nfm ''rec.json'')
       (ReadString (mapPath sample_nfm ''rec.json''))
       (fm_fileExists (nfm_fm sample_nfm) cloud_array_file (mapPath sample_nfm ''rec.json''))
       (pending (nfm_fm sample_nfm) cloud_array_file (mapPath sample_nfm ''rec.json''))
       (fst (materialize (nfm_fm sample_nfm) cloud_array_file (mapPath sample_nfm ''rec.json''))
          = Inr ())
       (backend_calls (snd (snd (readStringS sample_nfm ''rec.json'' (cloud_array_file, [])
                                :: (exn + int jsval DataResponse) \<times> mem_fs \<times> event list))))"
    by blast
  have p1: "exists_download_read ''/docs/cfg/rec.json'' (ReadString ''/docs/cfg/rec.json'')
       True True True
       [FileExists ''/docs/cfg/rec.json'', IsFileStoredIniCloud ''/docs/cfg/rec.json'',
        IsFileDownloaded ''/docs/cfg/rec.json'', DownloadFileFromiCloud ''/docs/cfg/rec.json'',
        ReadString ''/docs/cfg/rec.json'']"
    using a2 by (simp add: paths st c2)
  from a have a6: "download_exists_read (getAbsolutePath sample_cfm (resolvedName ''rec'' JSON) True)
       (pending (fm sample_cfm) cloud_array_file
          (getAbsolutePath sample_cfm (resolvedName ''rec'' JSON) True))
       (fst (materialize (fm sample_cfm) cloud_array_file
               (getAbsolutePath sample_cfm (resolvedName ''rec'' JSON) True)) = Inr ())
       (fm_fileExists (fm sample_cfm)
          (snd (materialize (fm sample_cfm) cloud_array_file
                  (getAbsolutePath sample_cfm (resolvedName ''rec'' JSON) True)))
          (getAbsolutePath sample_cfm (resolvedName ''rec'' JSON) True))
       (backend_calls (snd (snd (CustomFileManager_read sample_JSON sample_cfm ''rec'' JSON
                                True (cloud_array_file, [])))))"
    by blast
  have p2: "download_exists_read ''/docs/cfg/rec.json'' True True True
       [IsFileStoredIniCloud ''/docs/cfg/rec.json'', IsFileDownloaded ''/docs/cfg/rec.json'',
        DownloadFileFromiCloud ''/docs/cfg/rec.json'', FileExists ''/docs/cfg/rec.json'',
        ReadString ''/docs/cfg/rec.json'']"
    using a6 by (simp add: paths st c6)
  from st c1 c2 c3 c4 c5 c6 p1 p2 show ?thesis
    by simp
qed

text \<open>
  C3 as stated fails for \<open>CustomFileManager.read\<close>: on the pending file the download is
  made before the existence check.
\<close>

theorem CustomFileManager_read_downloads_before_exists:
  "\<not> precedes (FileExists ''/docs/cfg/rec.json'') (DownloadFileFromiCloud ''/docs/cfg/rec.json'')
       (snd (snd (CustomFileManager_read sample_JSON sample_cfm ''rec'' JSON True
                    (cloud_array_file, []))))"
  by (simp add: CustomFileManager_read_run read_rest_def cloud_events_def sample_defs Let_def)

text \<open>
  What the two managers do with a failing raw read or a failing \<open>JSON.parse\<close>, once the
  file exists and the conditional download has returned: \<open>CustomFileManager.read\<close> always
  returns a response, with status \<open>ERROR\<close> when the raw read throws; the safe readers of
  \<open>NewFileManager\<close> throw what the raw read or the parser throws.
\<close>

lemma CustomFileManager_read_absorbs:
  "materialize (fm cfm) s (getAbsolutePath cfm (resolvedName f k) c) = (Inr (), s1) \<Longrightarrow>
   \<exists>r. fst (CustomFileManager_read js cfm f k c (s, tr)) = Inr r
     \<and> ((\<exists>e. fm_readString (fm cfm) s1 (getAbsolutePath cfm (resolvedName f k) c) = Inl e)
          \<longrightarrow> fm_fileExists (fm cfm) s1 (getAbsolutePath cfm (resolvedName f k) c)
          \<longrightarrow> r = \<lparr>data = JNull, status = ERROR, msg = None\<rparr>)"
  by (auto simp add: CustomFileManager_read_run read_rest_def Let_def split: sum.splits)

lemma safe_readers_rethrow:
  assumes "fm_fileExists (nfm_fm this) s (mapPath this p)"
    and "materialize (nfm_fm this) s (mapPath this p) = (Inr (), s1)"
  shows "fm_read (nfm_fm this) s1 (mapPath this p) = Inl e \<Longrightarrow>
           fst (readS this p (s, tr)) = Inl e"
    and "fm_readString (nfm_fm this) s1 (mapPath this p) = Inl e \<Longrightarrow>
           fst (readStringS this p (s, tr)) = Inl e"
    and "fm_readImage (nfm_fm this) s1 (mapPath this p) = Inl e \<Longrightarrow>
           fst (readImageS this p (s, tr)) = Inl e"
  using assms
  by (simp_all add: readers readSmartWrapper_present NewFileManager_read_run readString_run
      readImage_run io_run io_bind_def)

lemma safe_json_readers_rethrow:
  assumes "fm_fileExists (nfm_fm this) s (mapPath this (jsonPath p auto))"
    and "materialize (nfm_fm this) s (mapPath this (jsonPath p auto)) = (Inr (), s1)"
    and "fm_readString (nfm_fm this) s1 (mapPath this (jsonPath p auto)) = Inr src"
    and "JSON_parse js src = Inl e"
  shows "fst (readJSONS js this p auto (s, tr)) = Inl e"
    and "fst (readJSONDictS js this p auto (s, tr)) = Inl e"
  using assms
  by (simp_all add: readers readSmartWrapper_present readJSON_run readJSONDict_run)

text \<open>
  C1 at a failing input: the local file \<open>/docs/cfg/rec.json\<close> exists and holds the
  malformed JSON text of one open brace. \<open>readJSONS\<close> and \<open>readJSONDictS\<close> throw the
  parser's \<open>SyntaxError\<close> (their promise is rejected); \<open>CustomFileManager.read\<close> on the same
  file returns the response with status \<open>ERROR\<close>.
\<close>

theorem safe_json_readers_throw_on_malformed_file:
  "fst (readJSONS sample_JSON sample_nfm ''rec'' True (malformed_json_file, []))
     = Inl (SyntaxError ''JSON Parse error'')
   \<and> fst (readJSONDictS sample_JSON sample_nfm ''rec'' True (malformed_json_file, []))
     = Inl (SyntaxError ''JSON Parse error'')
   \<and> fst (CustomFileManager_read sample_JSON sample_cfm ''rec'' JSON True
            (malformed_json_file, []))
     = Inr \<lparr>data = JNull, status = ERROR, msg = None\<rparr>"
  by (simp add: reader_defs readSmartWrapper_present readJSON_run readJSONDict_run
      CustomFileManager_read_run read_rest_def sample_defs)


text \<open>
  At that input the file exists, is not pending, and its text is rejected by the parser.
\<close>

theorem safe_json_readers_throw_on_malformed_file_witness:
  "fm_fileExists mem_FileManager malformed_json_file ''/docs/cfg/rec.json''
   \<and> materialize mem_FileManager malformed_json_file ''/docs/cfg/rec.json''
       = (Inr (), malformed_json_file)
   \<and> fm_readString mem_FileManager malformed_json_file ''/docs/cfg/rec.json'' = Inr ''{''
   \<and> JSON_parse sample_JSON ''{'' = Inl (SyntaxError ''JSON Parse error'')
   \<and> fst (readJSONS sample_JSON sample_nfm ''rec'' True (malformed_json_file, []))
       = Inl (SyntaxError ''JSON Parse error'')
   \<and> fst (readJSONDictS sample_JSON sample_nfm ''rec'' True (malformed_json_file, []))
       = Inl (SyntaxError ''JSON Parse error'')
   \<and> fst (CustomFileManager_read sample_JSON sample_cfm ''rec'' JSON True
            (malformed_json_file, []))
       = Inr \<lparr>data = JNull, status = ERROR, msg = None\<rparr>"
  using safe_json_readers_throw_on_malformed_file
  by (simp add: sample_defs)

end
